theory Spec2Isabelle
  imports Main "HOL-Library.Sublist" "HOL-Library.AList"
begin

section \<open>Strings of the JavaScript runtime\<close>

text \<open>
  The worker of \<^verbatim>\<open>src/index.js\<close> handles two kinds of strings, both modelled as
  \<^typ>\<open>string\<close>:
  \<^item> a \<^emph>\<open>header string\<close>: the value of the \<^verbatim>\<open>Cookie\<close> header as
    \<^verbatim>\<open>request.headers.get\<close> returns it, a ByteString in which every code unit is
    at most \<open>0xFF\<close>; one \<^typ>\<open>char\<close> is one code unit;
  \<^item> a \<^emph>\<open>text string\<close>: a well-formed Unicode string (what
    \<^verbatim>\<open>decodeURIComponent\<close> and the query parser return), held as its UTF-8 bytes;
    one \<^typ>\<open>char\<close> is one byte.
  On ASCII the two coincide. URL components and cache keys are ASCII.
\<close>

type_synonym header_string = string
type_synonym text_string = string

datatype js_error = URIError | FetchError

subsection \<open>String.prototype methods\<close>

definition startsWith :: "string \<Rightarrow> string \<Rightarrow> bool" where
  "startsWith s p = prefix p s"

definition endsWith :: "string \<Rightarrow> string \<Rightarrow> bool" where
  "endsWith s p = suffix p s"

text \<open>\<^verbatim>\<open>s.split(c)\<close> for a one-character separator: never the empty list.\<close>

fun split :: "char \<Rightarrow> string \<Rightarrow> string list" where
  "split c [] = [[]]"
| "split c (x # xs) =
     (if x = c then [] # split c xs
      else (case split c xs of [] \<Rightarrow> [[x]] | p # ps \<Rightarrow> (x # p) # ps))"

text \<open>
  \<^verbatim>\<open>s.trim()\<close> removes white space and line terminators at both ends; the ones a
  header string can hold are TAB, LF, VT, FF, CR, SP and NBSP.
\<close>

definition isWhiteSpace :: "char \<Rightarrow> bool" where
  "isWhiteSpace c \<longleftrightarrow>
     c \<in> set [CHR 0x09, CHR 0x0A, CHR 0x0B, CHR 0x0C, CHR 0x0D, CHR 0x20, CHR 0xA0]"

definition trim :: "string \<Rightarrow> string" where
  "trim s = rev (dropWhile isWhiteSpace (rev (dropWhile isWhiteSpace s)))"

fun join :: "string \<Rightarrow> string list \<Rightarrow> string" where
  "join sep [] = []"
| "join sep [s] = s"
| "join sep (s # t # ss) = s @ sep @ join sep (t # ss)"

subsection \<open>Hexadecimal digits and percent escapes\<close>

definition isDigit :: "char \<Rightarrow> bool" where
  "isDigit c \<longleftrightarrow> 48 \<le> (of_char c :: nat) \<and> (of_char c :: nat) \<le> 57"

definition isUpper :: "char \<Rightarrow> bool" where
  "isUpper c \<longleftrightarrow> 65 \<le> (of_char c :: nat) \<and> (of_char c :: nat) \<le> 90"

definition isLower :: "char \<Rightarrow> bool" where
  "isLower c \<longleftrightarrow> 97 \<le> (of_char c :: nat) \<and> (of_char c :: nat) \<le> 122"

definition isAlnum :: "char \<Rightarrow> bool" where
  "isAlnum c \<longleftrightarrow> isDigit c \<or> isUpper c \<or> isLower c"

definition hexval :: "char \<Rightarrow> nat option" where
  "hexval c =
     (let n = (of_char c :: nat) in
      if 48 \<le> n \<and> n \<le> 57 then Some (n - 48)
      else if 65 \<le> n \<and> n \<le> 70 then Some (n - 55)
      else if 97 \<le> n \<and> n \<le> 102 then Some (n - 87)
      else None)"

text \<open>The byte with high nibble \<open>h\<close> and low nibble \<open>l\<close>.\<close>

definition byte_of_nibbles :: "nat \<Rightarrow> nat \<Rightarrow> char" where
  "byte_of_nibbles h l =
     Char (odd l) (odd (l div 2)) (odd (l div 4)) (odd (l div 8))
          (odd h) (odd (h div 2)) (odd (h div 4)) (odd (h div 8))"

text \<open>ParseHexOctet at the head of \<open>s\<close>: a percent sign and two hexadecimal digits.\<close>

fun hex_octet :: "string \<Rightarrow> char option" where
  "hex_octet (p # a # b # rest) =
     (if p = CHR ''%'' then
        (case hexval a of None \<Rightarrow> None
         | Some h \<Rightarrow> (case hexval b of None \<Rightarrow> None | Some l \<Rightarrow> Some (byte_of_nibbles h l)))
      else None)"
| "hex_octet _ = None"

definition hexdigit :: "nat \<Rightarrow> char" where
  "hexdigit n = ''0123456789ABCDEF'' ! n"

definition percent :: "char \<Rightarrow> string" where
  "percent c = [CHR ''%'', hexdigit ((of_char c :: nat) div 16), hexdigit ((of_char c :: nat) mod 16)]"

subsection \<open>decodeURIComponent\<close>

text \<open>
  ECMAScript's Decode with an empty preserve set. A code unit other than \<open>%\<close> is copied
  (as the UTF-8 bytes of its code point); an escape whose octet has no leading one bit
  gives that ASCII character; an octet with \<open>n = 2, 3, 4\<close> leading one bits must be
  followed by \<open>n - 1\<close> more escapes and the \<open>n\<close> octets must be the UTF-8 encoding of a
  code point; everything else throws URIError.
\<close>

definition leading_ones :: "char \<Rightarrow> nat" where
  "leading_ones c =
     (let n = (of_char c :: nat) in
      if n < 0x80 then 0 else if n < 0xC0 then 1 else if n < 0xE0 then 2
      else if n < 0xF0 then 3 else if n < 0xF8 then 4 else 5)"

definition in_range :: "nat \<Rightarrow> nat \<Rightarrow> char \<Rightarrow> bool" where
  "in_range lo hi c \<longleftrightarrow> lo \<le> (of_char c :: nat) \<and> (of_char c :: nat) \<le> hi"

text \<open>Well-formed UTF-8 byte sequences of one code point (Unicode, Table 3-7).\<close>

fun valid_utf8 :: "string \<Rightarrow> bool" where
  "valid_utf8 [a] = in_range 0x00 0x7F a"
| "valid_utf8 [a, b] = (in_range 0xC2 0xDF a \<and> in_range 0x80 0xBF b)"
| "valid_utf8 [a, b, c] =
     ((in_range 0xE0 0xE0 a \<and> in_range 0xA0 0xBF b
       \<or> in_range 0xE1 0xEC a \<and> in_range 0x80 0xBF b
       \<or> in_range 0xED 0xED a \<and> in_range 0x80 0x9F b
       \<or> in_range 0xEE 0xEF a \<and> in_range 0x80 0xBF b)
      \<and> in_range 0x80 0xBF c)"
| "valid_utf8 [a, b, c, d] =
     ((in_range 0xF0 0xF0 a \<and> in_range 0x90 0xBF b
       \<or> in_range 0xF1 0xF3 a \<and> in_range 0x80 0xBF b
       \<or> in_range 0xF4 0xF4 a \<and> in_range 0x80 0x8F b)
      \<and> in_range 0x80 0xBF c \<and> in_range 0x80 0xBF d)"
| "valid_utf8 _ = False"

text \<open>The UTF-8 bytes of a code unit of a header string (a code point up to \<open>0xFF\<close>).\<close>

fun utf8_of_unit :: "char \<Rightarrow> text_string" where
  "utf8_of_unit (Char b0 b1 b2 b3 b4 b5 b6 b7) =
     (if b7 then [Char b6 True False False False False True True,
                  Char b0 b1 b2 b3 b4 b5 False True]
      else [Char b0 b1 b2 b3 b4 b5 b6 b7])"

text \<open>The octets of \<open>j\<close> consecutive escapes at the head of \<open>s\<close>.\<close>

fun hex_octets :: "nat \<Rightarrow> string \<Rightarrow> string option" where
  "hex_octets 0 s = Some []"
| "hex_octets (Suc j) s =
     (case hex_octet s of None \<Rightarrow> None
      | Some b \<Rightarrow> (case hex_octets j (drop 3 s) of None \<Rightarrow> None | Some bs \<Rightarrow> Some (b # bs)))"

fun decodeURIComponent :: "header_string \<Rightarrow> js_error + text_string" where
  "decodeURIComponent [] = Inr []"
| "decodeURIComponent (c # cs) =
     (if c \<noteq> CHR ''%'' then
        (case decodeURIComponent cs of Inl e \<Rightarrow> Inl e | Inr r \<Rightarrow> Inr (utf8_of_unit c @ r))
      else
        (case hex_octet (c # cs) of
           None \<Rightarrow> Inl URIError
         | Some b \<Rightarrow>
            (let n = leading_ones b in
             if n = 0 then
               (case decodeURIComponent (drop 2 cs) of Inl e \<Rightarrow> Inl e | Inr r \<Rightarrow> Inr (b # r))
             else if n = 1 \<or> 4 < n then Inl URIError
             else
               (case hex_octets (n - 1) (drop 2 cs) of
                  None \<Rightarrow> Inl URIError
                | Some bs \<Rightarrow>
                   (if valid_utf8 (b # bs) then
                      (case decodeURIComponent (drop (3 * (n - 1)) (drop 2 cs)) of
                         Inl e \<Rightarrow> Inl e
                       | Inr r \<Rightarrow> Inr (b # bs @ r))
                    else Inl URIError)))))"

section \<open>The cookie parser\<close>

text \<open>
  The jar is the object \<^verbatim>\<open>cookies\<close>: its own properties as a list of name and value,
  each name once. Names are header strings, values text strings. An assignment
  \<^verbatim>\<open>cookies[name] = v\<close> replaces the value of an existing property in place and adds
  a new one otherwise; with the name \<^verbatim>\<open>__proto__\<close> it reaches the setter inherited
  from \<^verbatim>\<open>Object.prototype\<close>, which ignores a string, so the jar does not change.
  The list is in the order of the first assignments; \<^verbatim>\<open>Object.keys\<close> lists names
  that are array indices before the others, and nothing below depends on the order.
\<close>

type_synonym jar = "(string \<times> string) list"

definition assign :: "jar \<Rightarrow> string \<Rightarrow> string \<Rightarrow> jar" where
  "assign cookies name v = (if name = ''__proto__'' then cookies else AList.update name v cookies)"

text \<open>
  The body of the \<^verbatim>\<open>forEach\<close> callback. The destructuring
  \<^verbatim>\<open>[name, value] = cookie.trim().split('=')\<close> takes the first two pieces of the
  split; \<^verbatim>\<open>value\<close> is undefined when there is one piece only.
\<close>

definition parseCookie :: "jar \<Rightarrow> header_string \<Rightarrow> js_error + jar" where
  "parseCookie cookies cookie =
     (case split CHR ''='' (trim cookie) of
        name # value # _ \<Rightarrow>
          (if name \<noteq> [] \<and> value \<noteq> [] then
             (case decodeURIComponent value of
                Inl e \<Rightarrow> Inl e
              | Inr v \<Rightarrow> Inr (assign cookies name v))
           else Inr cookies)
      | _ \<Rightarrow> Inr cookies)"

fun forEach :: "jar \<Rightarrow> header_string list \<Rightarrow> js_error + jar" where
  "forEach cookies [] = Inr cookies"
| "forEach cookies (cookie # rest) =
     (case parseCookie cookies cookie of
        Inl e \<Rightarrow> Inl e
      | Inr cookies' \<Rightarrow> forEach cookies' rest)"

text \<open>\<open>None\<close> is an absent header (\<^verbatim>\<open>null\<close> or \<^verbatim>\<open>undefined\<close>).\<close>

definition parseCookies :: "header_string option \<Rightarrow> js_error + jar" where
  "parseCookies cookieHeader =
     (case cookieHeader of
        None \<Rightarrow> Inr []
      | Some h \<Rightarrow> (if h = [] then Inr [] else forEach [] (split CHR '';'' h)))"

section \<open>The bypass classifier\<close>

definition WOOCOMMERCE_BYPASS_COOKIES :: "string list" where
  "WOOCOMMERCE_BYPASS_COOKIES =
     [''woocommerce_cart_hash'', ''woocommerce_items_in_cart'', ''wp_woocommerce_session_'']"

definition pattern_matches :: "string \<Rightarrow> string \<Rightarrow> bool" where
  "pattern_matches pattern cookieName =
     (if endsWith pattern ''_'' then startsWith cookieName pattern else cookieName = pattern)"

definition shouldBypassCache :: "jar \<Rightarrow> bool" where
  "shouldBypassCache cookies =
     (let cookieNames = map fst cookies in
      list_ex (\<lambda>pattern. list_ex (pattern_matches pattern) cookieNames)
        WOOCOMMERCE_BYPASS_COOKIES)"

section \<open>URLs and their query parameters\<close>

text \<open>
  A parsed \<^verbatim>\<open>URL\<close> object by the getters the worker reads. \<open>protocol\<close> ends with a
  colon, \<open>host\<close> carries the port if there is one, \<open>search\<close> is empty or starts with
  \<open>?\<close>, \<open>hash\<close> is empty or starts with \<open>#\<close>. The URL of a request has scheme http
  or https and no credentials.
\<close>

record URL =
  protocol :: string
  host :: string
  pathname :: string
  search :: string
  hash :: string

text \<open>\<^verbatim>\<open>url.toString()\<close>, the serialisation of the URL.\<close>

definition href :: "URL \<Rightarrow> string" where
  "href u = protocol u @ ''//'' @ host u @ pathname u @ search u @ hash u"

subsection \<open>encodeURIComponent\<close>

text \<open>
  Every byte of the UTF-8 encoding is escaped except the ASCII letters and digits and
  \<^verbatim>\<open>- _ . ! ~ * ' ( )\<close>. (A text string is well formed, so no URIError arises.)
\<close>

definition uriUnreserved :: "char \<Rightarrow> bool" where
  "uriUnreserved c \<longleftrightarrow>
     isAlnum c \<or> c \<in> set ''-_.!~*'' \<or> c \<in> set [CHR 0x27, CHR ''('', CHR '')'']"

definition encodeURIComponent :: "text_string \<Rightarrow> string" where
  "encodeURIComponent s = concat (map (\<lambda>c. if uriUnreserved c then [c] else percent c) s)"

subsection \<open>The application/x-www-form-urlencoded format of URLSearchParams\<close>

text \<open>The URL standard's percent-decode: an escape that is not well formed stays.\<close>

fun percent_decode :: "string \<Rightarrow> string" where
  "percent_decode [] = []"
| "percent_decode (c # cs) =
     (case hex_octet (c # cs) of
        Some b \<Rightarrow> b # percent_decode (drop 2 cs)
      | None \<Rightarrow> c # percent_decode cs)"

text \<open>
  The Encoding standard's UTF-8 decoder in replacement mode, on the UTF-8 representation:
  a well-formed sequence is copied, every error gives U+FFFD, and a byte that breaks a
  sequence is read again as the start of the next one. The state is the number of bytes
  still needed, the bounds for the next byte and the bytes seen of the current sequence.
\<close>

definition REPLACEMENT :: string where
  "REPLACEMENT = [CHR 0xEF, CHR 0xBF, CHR 0xBD]"

fun utf8_decode :: "nat \<Rightarrow> nat \<Rightarrow> nat \<Rightarrow> string \<Rightarrow> string \<Rightarrow> text_string" where
  "utf8_decode needed lo hi seen [] = (if needed = 0 then [] else REPLACEMENT)"
| "utf8_decode needed lo hi seen (b # bs) =
     (if needed \<noteq> 0 \<and> in_range lo hi b then
        (if needed = 1 then seen @ [b] @ utf8_decode 0 0x80 0xBF [] bs
         else utf8_decode (needed - 1) 0x80 0xBF (seen @ [b]) bs)
      else
        (if needed \<noteq> 0 then REPLACEMENT else []) @
        (if in_range 0x00 0x7F b then b # utf8_decode 0 0x80 0xBF [] bs
         else if in_range 0xC2 0xDF b then utf8_decode 1 0x80 0xBF [b] bs
         else if in_range 0xE0 0xEF b then
           utf8_decode 2 (if b = CHR 0xE0 then 0xA0 else 0x80)
             (if b = CHR 0xED then 0x9F else 0xBF) [b] bs
         else if in_range 0xF0 0xF4 b then
           utf8_decode 3 (if b = CHR 0xF0 then 0x90 else 0x80)
             (if b = CHR 0xF4 then 0x8F else 0xBF) [b] bs
         else REPLACEMENT @ utf8_decode 0 0x80 0xBF [] bs))"

definition plus_to_space :: "string \<Rightarrow> string" where
  "plus_to_space s = map (\<lambda>c. if c = CHR ''+'' then CHR '' '' else c) s"

definition decode_component :: "string \<Rightarrow> text_string" where
  "decode_component s = utf8_decode 0 0x80 0xBF [] (percent_decode (plus_to_space s))"

text \<open>
  The parser: split on \<open>&\<close>, skip empty pieces, split each piece at its first \<open>=\<close>
  (no \<open>=\<close>: the value is empty), turn \<open>+\<close> into a space, percent-decode, decode UTF-8.
\<close>

definition parse_tuple :: "string \<Rightarrow> text_string \<times> text_string" where
  "parse_tuple bytes =
     (let name = takeWhile (\<lambda>c. c \<noteq> CHR ''='') bytes;
          val = drop (length name + 1) bytes
      in (decode_component name, decode_component val))"

definition urlencoded_parse :: "string \<Rightarrow> (text_string \<times> text_string) list" where
  "urlencoded_parse input = map parse_tuple (filter (\<lambda>bytes. bytes \<noteq> []) (split CHR ''&'' input))"

text \<open>
  The serialiser: a space becomes \<open>+\<close>, ASCII letters and digits and \<^verbatim>\<open>* - . _\<close> stay,
  every other byte (also \<open>%\<close>) is escaped; pairs are \<open>name=value\<close> joined with \<open>&\<close>.
\<close>

definition urlencoded_byte :: "char \<Rightarrow> string" where
  "urlencoded_byte c =
     (if c = CHR '' '' then ''+''
      else if isAlnum c \<or> c \<in> set ''*-._'' then [c]
      else percent c)"

definition urlencoded_string :: "text_string \<Rightarrow> string" where
  "urlencoded_string s = concat (map urlencoded_byte s)"

definition urlencoded_serialize :: "(text_string \<times> text_string) list \<Rightarrow> string" where
  "urlencoded_serialize tuples =
     join ''&'' (map (\<lambda>(name, v). urlencoded_string name @ ''='' @ urlencoded_string v) tuples)"

text \<open>\<^verbatim>\<open>url.searchParams\<close>: the list parsed from the query, the search without its \<open>?\<close>.\<close>

definition searchParams :: "URL \<Rightarrow> (text_string \<times> text_string) list" where
  "searchParams u = urlencoded_parse (drop 1 (search u))"

text \<open>
  \<^verbatim>\<open>URLSearchParams.set\<close> on the list: if a pair has the name, the first such pair gets
  the value and the others are removed; otherwise the pair is appended.
\<close>

fun set_first :: "string \<Rightarrow> string \<Rightarrow> (string \<times> string) list \<Rightarrow> (string \<times> string) list" where
  "set_first name v [] = []"
| "set_first name v ((k, w) # tuples) =
     (if k = name then (name, v) # filter (\<lambda>t. fst t \<noteq> name) tuples
      else (k, w) # set_first name v tuples)"

definition list_set :: "string \<Rightarrow> string \<Rightarrow> (string \<times> string) list \<Rightarrow> (string \<times> string) list" where
  "list_set name v tuples =
     (if list_ex (\<lambda>t. fst t = name) tuples then set_first name v tuples
      else tuples @ [(name, v)])"

text \<open>
  \<^verbatim>\<open>url.searchParams.set(name, v)\<close>: the list is changed and the URL's query becomes its
  serialisation (no query when that is empty).
\<close>

definition searchParams_set :: "URL \<Rightarrow> string \<Rightarrow> string \<Rightarrow> URL" where
  "searchParams_set u name v =
     (let serializedQuery = urlencoded_serialize (list_set name v (searchParams u))
      in u\<lparr>search := (if serializedQuery = [] then [] else ''?'' @ serializedQuery)\<rparr>)"

section \<open>The cache key builder\<close>

definition AELIA_CACHE_COOKIES :: "string list" where
  "AELIA_CACHE_COOKIES = [''aelia_cs_selected_currency'', ''aelia_customer_country'']"

definition isShopOrProductPath :: "string \<Rightarrow> bool" where
  "isShopOrProductPath pathname' \<longleftrightarrow>
     startsWith pathname' ''/shop'' \<or> startsWith pathname' ''/product/''"

text \<open>\<^verbatim>\<open>cookies[cookieName] || 'default'\<close>: an absent and an empty value give the default.\<close>

definition cookie_or_default :: "jar \<Rightarrow> string \<Rightarrow> text_string" where
  "cookie_or_default cookies cookieName =
     (case map_of cookies cookieName of
        None \<Rightarrow> ''default''
      | Some v \<Rightarrow> if v = [] then ''default'' else v)"

definition baseKey :: "URL \<Rightarrow> string" where
  "baseKey url' = protocol url' @ ''//'' @ host url' @ pathname url' @ search url'"

text \<open>
  \<^verbatim>\<open>new URL(baseKey)\<close>: parsing the base key of an http(s) URL gives its protocol,
  host, pathname and search back, and no fragment.
\<close>

definition new_URL_baseKey :: "URL \<Rightarrow> URL" where
  "new_URL_baseKey url' =
     \<lparr>protocol = protocol url', host = host url', pathname = pathname url',
      search = search url', hash = []\<rparr>"

definition aeliaCookieValues :: "jar \<Rightarrow> text_string" where
  "aeliaCookieValues cookies =
     join ''&'' (map (\<lambda>cookieName. cookieName @ ''='' @ cookie_or_default cookies cookieName)
       AELIA_CACHE_COOKIES)"

definition generateCacheKey :: "URL \<Rightarrow> jar \<Rightarrow> string" where
  "generateCacheKey url' cookies =
     (if isShopOrProductPath (pathname url') then
        (let cacheKeyUrl = searchParams_set (new_URL_baseKey url') ''aelia_cache''
               (encodeURIComponent (aeliaCookieValues cookies))
         in href cacheKeyUrl)
      else baseKey url')"

section \<open>The request dispatcher\<close>

text \<open>
  A request by what the worker reads of it: the method (in upper case, as
  \<^verbatim>\<open>request.method\<close> gives it), the parsed URL and the \<^verbatim>\<open>Cookie\<close> header. A
  response has a status, a status text, headers and a body; it stands for a response the
  platform delivered (from the origin or from the cache), so that copying it with
  \<^verbatim>\<open>new Response(response.body, response)\<close> succeeds. Header names are case
  insensitive: the map is keyed by the lower-case name. The values the worker sets (two
  constants and the cache key, an ASCII URL) are valid header values with no white space
  at their ends, so \<^verbatim>\<open>set\<close> stores them as they are.
\<close>

record request =
  "method" :: string
  url :: URL
  cookie_header :: "header_string option"

type_synonym Headers = "string \<rightharpoonup> string"

record response =
  status :: nat
  statusText :: string
  headers :: Headers
  body :: string

fun toLowerCase_char :: "char \<Rightarrow> char" where
  "toLowerCase_char (Char b0 b1 b2 b3 b4 b5 b6 b7) =
     (if isUpper (Char b0 b1 b2 b3 b4 b5 b6 b7) then Char b0 b1 b2 b3 b4 True b6 b7
      else Char b0 b1 b2 b3 b4 b5 b6 b7)"

definition Headers_get :: "Headers \<Rightarrow> string \<Rightarrow> string option" where
  "Headers_get h name = h (map toLowerCase_char name)"

definition Headers_set :: "Headers \<Rightarrow> string \<Rightarrow> string \<Rightarrow> Headers" where
  "Headers_set h name v = h(map toLowerCase_char name \<mapsto> v)"

definition ok :: "response \<Rightarrow> bool" where
  "ok r \<longleftrightarrow> 200 \<le> status r \<and> status r \<le> 299"

definition CACHE_TTL :: nat where
  "CACHE_TTL = 86400"

text \<open>The decimal digits of a number, as a template literal prints it.\<close>

function string_of_nat :: "nat \<Rightarrow> string" where
  "string_of_nat n =
     (if n < 10 then [''0123456789'' ! n]
      else string_of_nat (n div 10) @ [''0123456789'' ! (n mod 10)])"
  by pat_completeness auto
termination
  by (relation "measure id") auto

text \<open>
  The second argument of \<^verbatim>\<open>fetch\<close> on a miss: the \<^verbatim>\<open>cf\<close> object with its
  \<^verbatim>\<open>cacheTtlByStatus\<close> table.
\<close>

datatype cf_options = Cf (cacheEverything: bool) (cacheTtl: nat) (cacheTtlByStatus: "(string \<times> nat) list")

definition miss_options :: cf_options where
  "miss_options = Cf True CACHE_TTL [(''200-299'', CACHE_TTL), (''404'', 300), (''500-599'', 0)]"

text \<open>
  The two collaborators are parameters: \<open>origin\<close> is the global \<^verbatim>\<open>fetch\<close> (it answers
  or fails) and \<open>cache\<close> is \<^verbatim>\<open>caches.default.match\<close>. What the handler does to them is
  recorded, in order, as a list of events; \<open>CachePut\<close> is the write handed to
  \<^verbatim>\<open>ctx.waitUntil\<close>.
\<close>

datatype event =
    CacheMatch string
  | OriginFetch request "cf_options option"
  | CachePut string response

type_synonym origin = "request \<Rightarrow> cf_options option \<Rightarrow> js_error + response"
type_synonym cache = "string \<Rightarrow> response option"

definition fetchFromOrigin :: "origin \<Rightarrow> request \<Rightarrow> (js_error + response) \<times> event list" where
  "fetchFromOrigin origin' request' = (origin' request' None, [OriginFetch request' None])"

definition hit_response :: "response \<Rightarrow> string \<Rightarrow> response" where
  "hit_response response' cacheKey =
     response'\<lparr>headers :=
       Headers_set (Headers_set (headers response') ''CF-Cache-Status'' ''HIT'')
         ''X-Cache-Key'' cacheKey\<rparr>"

definition cachedResponse :: "response \<Rightarrow> response" where
  "cachedResponse responseToCache =
     \<lparr>status = status responseToCache, statusText = statusText responseToCache,
      headers = Headers_set (headers responseToCache) ''Cache-Control''
        (''public, max-age='' @ string_of_nat CACHE_TTL),
      body = body responseToCache\<rparr>"

definition miss_response :: "response \<Rightarrow> string \<Rightarrow> response" where
  "miss_response response' cacheKey =
     (let cfCacheStatus =
            (case Headers_get (headers response') ''cf-cache-status'' of
               None \<Rightarrow> ''MISS''
             | Some v \<Rightarrow> if v = [] then ''MISS'' else v)
      in response'\<lparr>headers :=
           Headers_set
             (Headers_set (Headers_set (headers response') ''CF-Cache-Status'' cfCacheStatus)
                ''X-Cache-Key'' cacheKey)
             ''X-Worker-Cache'' ''MISS''\<rparr>)"

definition handleRequest :: "origin \<Rightarrow> cache \<Rightarrow> request \<Rightarrow> (js_error + response) \<times> event list" where
  "handleRequest origin' cache' request' =
     (case parseCookies (Some (case cookie_header request' of None \<Rightarrow> [] | Some h \<Rightarrow> h)) of
        Inl e \<Rightarrow> (Inl e, [])
      | Inr cookies \<Rightarrow>
          if method request' \<noteq> ''GET'' then fetchFromOrigin origin' request'
          else if startsWith (pathname (url request')) ''/my-account'' then
            fetchFromOrigin origin' request'
          else if shouldBypassCache cookies then fetchFromOrigin origin' request'
          else
            (let cacheKey = generateCacheKey (url request') cookies in
             case cache' cacheKey of
               Some response' \<Rightarrow> (Inr (hit_response response' cacheKey), [CacheMatch cacheKey])
             | None \<Rightarrow>
                 (case origin' request' (Some miss_options) of
                    Inl e \<Rightarrow>
                      (Inl e, [CacheMatch cacheKey, OriginFetch request' (Some miss_options)])
                  | Inr response' \<Rightarrow>
                      (Inr (miss_response response' cacheKey),
                       [CacheMatch cacheKey, OriginFetch request' (Some miss_options)]
                       @ (if ok response' then [CachePut cacheKey (cachedResponse response')]
                          else [])))))"

text \<open>
  The exported \<^verbatim>\<open>fetch\<close> handler: whatever \<^verbatim>\<open>handleRequest\<close> throws becomes the
  response \<^verbatim>\<open>new Response('Internal Server Error', { status: 500 })\<close>.
\<close>

definition internal_server_error :: response where
  "internal_server_error =
     \<lparr>status = 500, statusText = [],
      headers = [''content-type'' \<mapsto> ''text/plain;charset=UTF-8''],
      body = ''Internal Server Error''\<rparr>"

definition worker_fetch :: "origin \<Rightarrow> cache \<Rightarrow> request \<Rightarrow> response \<times> event list" where
  "worker_fetch origin' cache' request' =
     (case handleRequest origin' cache' request' of
        (Inl e, events) \<Rightarrow> (internal_server_error, events)
      | (Inr response', events) \<Rightarrow> (response', events))"

text \<open>The three reasons for which \<^verbatim>\<open>handleRequest\<close> goes to the origin directly.\<close>

definition bypass :: "request \<Rightarrow> jar \<Rightarrow> bool" where
  "bypass request' cookies \<longleftrightarrow> method request' \<noteq> ''GET''
     \<or> startsWith (pathname (url request')) ''/my-account''
     \<or> shouldBypassCache cookies"

section \<open>Concrete requests and collaborators\<close>

text \<open>
  The scenarios of the specification: A is \<^verbatim>\<open>GET /product/widget-1\<close> without cookies,
  C is \<^verbatim>\<open>GET /shop\<close> with the cookie \<^verbatim>\<open>woocommerce_cart_hash=abc123\<close>; a POST to
  the same product page; a POST to \<^verbatim>\<open>/my-account\<close> whose cookie \<^verbatim>\<open>a=%\<close> has a
  malformed escape; an origin that answers every request with the same page; a cache that
  holds nothing and one that holds that page under every key.
\<close>

definition scenario_A :: request where
  "scenario_A =
     \<lparr>method = ''GET'',
      url = \<lparr>protocol = ''https:'', host = ''host'', pathname = ''/product/widget-1'',
             search = [], hash = []\<rparr>,
      cookie_header = None\<rparr>"

definition scenario_C :: request where
  "scenario_C =
     \<lparr>method = ''GET'',
      url = \<lparr>protocol = ''https:'', host = ''host'', pathname = ''/shop'',
             search = [], hash = []\<rparr>,
      cookie_header = Some ''woocommerce_cart_hash=abc123''\<rparr>"

definition post_request :: request where
  "post_request = scenario_A\<lparr>method := ''POST''\<rparr>"

definition post_malformed_cookie :: request where
  "post_malformed_cookie =
     \<lparr>method = ''POST'',
      url = \<lparr>protocol = ''https:'', host = ''host'', pathname = ''/my-account'',
             search = [], hash = []\<rparr>,
      cookie_header = Some ''a=%''\<rparr>"

definition page :: response where
  "page =
     \<lparr>status = 200, statusText = ''OK'',
      headers = [''content-type'' \<mapsto> ''text/html''],
      body = ''<html></html>''\<rparr>"

definition page_origin :: origin where
  "page_origin request' options = Inr page"


definition page_cache :: cache where
  "page_cache cacheKey = Some page"

text \<open>The invariant of the jar: no property has an empty name or an empty value.\<close>

definition no_empty_entry :: "jar \<Rightarrow> bool" where
  "no_empty_entry cookies \<longleftrightarrow> (\<forall>(name, v) \<in> set cookies. name \<noteq> [] \<and> v \<noteq> [])"

section \<open>Properties of the cookie parser and of the bypass classifier\<close>

lemma utf8_of_unit_nonempty: "utf8_of_unit c \<noteq> []"
  by (cases c) simp

lemma decodeURIComponent_nonempty:
  "decodeURIComponent s = Inr r \<Longrightarrow> s \<noteq> [] \<Longrightarrow> r \<noteq> []"
  by (cases s) (auto simp: Let_def utf8_of_unit_nonempty split: if_splits sum.splits option.splits)

lemma set_update_subset: "p \<in> set (AList.update k v al) \<Longrightarrow> p = (k, v) \<or> p \<in> set al"
  by (induction al) (auto split: if_splits)

lemma parseCookie_no_empty:
  "no_empty_entry cookies \<Longrightarrow> parseCookie cookies cookie = Inr cookies' \<Longrightarrow> no_empty_entry cookies'"
  unfolding parseCookie_def assign_def no_empty_entry_def
  by (auto split: list.splits if_splits sum.splits dest!: set_update_subset decodeURIComponent_nonempty)

lemma forEach_no_empty:
  "no_empty_entry cookies \<Longrightarrow> forEach cookies fs = Inr cookies' \<Longrightarrow> no_empty_entry cookies'"
proof (induction fs arbitrary: cookies)
  case Nil
  then show ?case by simp
next
  case (Cons f fs)
  then show ?case by (auto split: sum.splits dest: parseCookie_no_empty)
qed

lemma split_pieces_subset: "p \<in> set (split c s) \<Longrightarrow> set p \<subseteq> set s"
proof (induction s arbitrary: p)
  case Nil
  then show ?case by simp
next
  case (Cons x xs)
  then show ?case by (fastforce split: if_splits list.splits)
qed

lemma trim_subset: "set (trim s) \<subseteq> set s"
  unfolding trim_def by (auto dest!: set_dropWhileD)

lemma decodeURIComponent_plain:
  "CHR ''%'' \<notin> set s \<Longrightarrow> decodeURIComponent s = Inr (concat (map utf8_of_unit s))"
  by (induction s) auto

lemma parseCookie_plain:
  "CHR ''%'' \<notin> set cookie \<Longrightarrow> \<exists>cookies'. parseCookie cookies cookie = Inr cookies'"
proof -
  assume a: "CHR ''%'' \<notin> set cookie"
  have "\<And>p. p \<in> set (split CHR ''='' (trim cookie)) \<Longrightarrow> CHR ''%'' \<notin> set p"
    using a split_pieces_subset trim_subset by blast
  then show ?thesis
    unfolding parseCookie_def
    by (auto split: list.splits simp: decodeURIComponent_plain)
qed

lemma forEach_plain:
  "\<forall>f \<in> set fs. CHR ''%'' \<notin> set f \<Longrightarrow> \<exists>cookies'. forEach cookies fs = Inr cookies'"
proof (induction fs arbitrary: cookies)
  case Nil
  then show ?case by simp
next
  case (Cons f fs)
  then obtain c1 where "parseCookie cookies f = Inr c1"
    using parseCookie_plain by fastforce
  with Cons show ?case by simp
qed

lemma parseCookies_plain:
  "CHR ''%'' \<notin> set h \<Longrightarrow> \<exists>cookies. parseCookies (Some h) = Inr cookies"
  unfolding parseCookies_def using forEach_plain split_pieces_subset
  by (simp add: subset_iff) blast

text \<open>
  The invariant holds of every jar that \<^verbatim>\<open>parseCookies\<close> returns; a header without a
  percent sign always gives a jar, an absent or empty header the empty one.
\<close>

lemma parseCookies_entries:
  "(parseCookies H = Inr cookies \<longrightarrow> (\<forall>(name, v) \<in> set cookies. name \<noteq> [] \<and> v \<noteq> []))
   \<and> (CHR ''%'' \<notin> set h \<longrightarrow> (\<exists>cookies'. parseCookies (Some h) = Inr cookies'))
   \<and> parseCookies None = Inr [] \<and> parseCookies (Some []) = Inr []"
proof -
  have "no_empty_entry []" by (simp add: no_empty_entry_def)
  then have "parseCookies H = Inr cookies \<Longrightarrow> no_empty_entry cookies"
    unfolding parseCookies_def
    by (auto split: option.splits if_splits dest: forEach_no_empty)
  then show ?thesis
    using parseCookies_plain by (auto simp: no_empty_entry_def parseCookies_def)
qed

lemma parseCookies_entries_example:
  "parseCookies (Some ''a=b; =x; y=; z; aelia_customer_country=HU'')
     = Inr [(''a'', ''b''), (''aelia_customer_country'', ''HU'')]
   \<and> list_all (\<lambda>(name, v). name \<noteq> [] \<and> v \<noteq> [])
        [(''a'', ''b''), (''aelia_customer_country'', ''HU'')]
   \<and> (\<exists>cookies'. parseCookies (Some ''a=b'') = Inr cookies')"
proof -
  have r: "parseCookies (Some ''a=b; =x; y=; z; aelia_customer_country=HU'')
     = Inr [(''a'', ''b''), (''aelia_customer_country'', ''HU'')]"
    by (simp add: parseCookies_def parseCookie_def trim_def isWhiteSpace_def assign_def)
  have p: "CHR ''%'' \<notin> set ''a=b''" by simp
  show ?thesis
    using r p
      parseCookies_entries [of "Some ''a=b; =x; y=; z; aelia_customer_country=HU''"
        "[(''a'', ''b''), (''aelia_customer_country'', ''HU'')]" "''a=b''"]
    by (simp add: list_all_iff)
qed

text \<open>
  Claim C6 at the header \<^verbatim>\<open>a=%\<close>: no jar is returned. The value is not empty, so the
  fragment is accepted, \<^verbatim>\<open>decodeURIComponent\<close> throws URIError on the malformed escape
  and \<^verbatim>\<open>parseCookies\<close> does not catch it; one such fragment loses the cookies beside
  it as well. The other malformed fragments (no \<open>=\<close>, an empty name, an empty value) are
  dropped and the rest of the header is kept, and a well-formed escape is decoded.
\<close>

theorem parseCookies_malformed_escape:
  "parseCookies (Some ''a=%'') = Inl URIError
   \<and> parseCookies (Some ''aelia_cs_selected_currency=EUR; a=%'') = Inl URIError
   \<and> parseCookies (Some ''aelia_cs_selected_currency=EUR; =x; y=; z; a=%20b'')
       = Inr [(''aelia_cs_selected_currency'', ''EUR''), (''a'', '' b'')]"
  by (simp add: parseCookies_def parseCookie_def trim_def isWhiteSpace_def assign_def
      hexval_def byte_of_nibbles_def leading_ones_def)

text \<open>
  Claim C7 at the fragment \<^verbatim>\<open>name=v1=v2\<close>: the code splits on every \<open>=\<close> and keeps
  the first two pieces, so the stored value is \<^verbatim>\<open>v1\<close>, not \<^verbatim>\<open>v1=v2\<close>. The header is
  split on \<open>;\<close> and each fragment is trimmed, as the claim says.
\<close>

theorem parseCookies_second_equals_sign:
  "parseCookies (Some ''a=b;  name=v1=v2 '') = Inr [(''a'', ''b''), (''name'', ''v1'')]
   \<and> parseCookies (Some ''name=v1=v2'') \<noteq> Inr [(''name'', ''v1=v2'')]"
  by (simp add: parseCookies_def parseCookie_def trim_def isWhiteSpace_def assign_def)

lemma matches_cart_hash:
  "pattern_matches ''woocommerce_cart_hash'' n \<longleftrightarrow> n = ''woocommerce_cart_hash''"
  by (simp add: pattern_matches_def endsWith_def suffix_to_prefix)

lemma matches_items_in_cart:
  "pattern_matches ''woocommerce_items_in_cart'' n \<longleftrightarrow> n = ''woocommerce_items_in_cart''"
  by (simp add: pattern_matches_def endsWith_def suffix_to_prefix)

lemma matches_session:
  "pattern_matches ''wp_woocommerce_session_'' n \<longleftrightarrow> (\<exists>rest. n = ''wp_woocommerce_session_'' @ rest)"
  by (simp add: pattern_matches_def endsWith_def startsWith_def suffix_to_prefix prefix_def)

text \<open>
  Claim C5. \<^verbatim>\<open>shouldBypassCache\<close> holds exactly when the jar has a cookie named
  \<^verbatim>\<open>woocommerce_cart_hash\<close> or \<^verbatim>\<open>woocommerce_items_in_cart\<close>, or one whose name
  starts with \<^verbatim>\<open>wp_woocommerce_session_\<close> (followed by anything, also by nothing);
  it does not hold for the empty jar.
\<close>

theorem shouldBypassCache_iff:
  "(shouldBypassCache cookies \<longleftrightarrow>
      (\<exists>name \<in> set (map fst cookies).
         name = ''woocommerce_cart_hash'' \<or> name = ''woocommerce_items_in_cart''
         \<or> (\<exists>rest. name = ''wp_woocommerce_session_'' @ rest)))
   \<and> \<not> shouldBypassCache []"
proof -
  have "shouldBypassCache cookies \<longleftrightarrow>
      (\<exists>name \<in> set (map fst cookies).
         pattern_matches ''woocommerce_cart_hash'' name
         \<or> pattern_matches ''woocommerce_items_in_cart'' name
         \<or> pattern_matches ''wp_woocommerce_session_'' name)"
    unfolding shouldBypassCache_def WOOCOMMERCE_BYPASS_COOKIES_def Let_def list_ex_iff
    by (simp only: list.set) blast
  moreover have "\<not> shouldBypassCache []"
    by (simp add: shouldBypassCache_def list_ex_iff)
  ultimately show ?thesis
    unfolding matches_cart_hash matches_items_in_cart matches_session
    by (rule conjI)
qed

theorem shouldBypassCache_iff_witness:
  "shouldBypassCache [(''wp_woocommerce_session_'', ''1'')]
   \<and> shouldBypassCache [(''a'', ''b''), (''woocommerce_cart_hash'', ''abc123'')]
   \<and> \<not> shouldBypassCache [(''aelia_customer_country'', ''HU'')]
   \<and> \<not> shouldBypassCache []"
  using shouldBypassCache_iff [of "[(''wp_woocommerce_session_'', ''1'')]"]
    shouldBypassCache_iff [of "[(''a'', ''b''), (''woocommerce_cart_hash'', ''abc123'')]"]
    shouldBypassCache_iff [of "[(''aelia_customer_country'', ''HU'')]"]
  by simp

section \<open>Properties of the cache key builder\<close>

lemmas key_eval =
  generateCacheKey_def isShopOrProductPath_def startsWith_def searchParams_set_def
  new_URL_baseKey_def href_def baseKey_def searchParams_def urlencoded_parse_def
  parse_tuple_def decode_component_def plus_to_space_def list_set_def
  urlencoded_serialize_def urlencoded_string_def urlencoded_byte_def
  encodeURIComponent_def uriUnreserved_def aeliaCookieValues_def AELIA_CACHE_COOKIES_def
  percent_def hexdigit_def isAlnum_def isDigit_def isUpper_def
  isLower_def in_range_def hexval_def byte_of_nibbles_def Let_def

text \<open>
  Claim C1, as the code has it. For \<^verbatim>\<open>/product/widget-1\<close> without a query and the empty
  jar, the key is the base URL with the one parameter \<^verbatim>\<open>aelia_cache\<close>. Its value, read
  back from the key, is the percent-encoding of the joined string; in the text of the key
  that value is serialised once more by \<^verbatim>\<open>searchParams.set\<close>, so every \<open>%\<close> of the
  token stands as \<^verbatim>\<open>%25\<close>.
\<close>

theorem scenario_A_key:
  "generateCacheKey
     \<lparr>protocol = p, host = h, pathname = ''/product/widget-1'', search = [], hash = []\<rparr> []
   = p @ ''//'' @ h @ ''/product/widget-1?aelia_cache=aelia_cs_selected_currency%253Ddefault%2526aelia_customer_country%253Ddefault''
   \<and> generateCacheKey
     \<lparr>protocol = p, host = h, pathname = ''/product/widget-1'', search = [], hash = []\<rparr> []
   = p @ ''//'' @ h @ ''/product/widget-1?aelia_cache='' @ urlencoded_string
       (encodeURIComponent ''aelia_cs_selected_currency=default&aelia_customer_country=default'')
   \<and> urlencoded_parse ''aelia_cache=aelia_cs_selected_currency%253Ddefault%2526aelia_customer_country%253Ddefault''
   = [(''aelia_cache'',
       encodeURIComponent ''aelia_cs_selected_currency=default&aelia_customer_country=default'')]"
  by (simp add: key_eval cookie_or_default_def)

theorem scenario_A_key_witness:
  "generateCacheKey
     \<lparr>protocol = ''https:'', host = ''host'', pathname = ''/product/widget-1'', search = [], hash = []\<rparr> []
   = ''https://host/product/widget-1?aelia_cache=aelia_cs_selected_currency%253Ddefault%2526aelia_customer_country%253Ddefault''"
  using scenario_A_key [of "''https:''" "''host''"] by simp

text \<open>
  Claim C1, as the specification states it, fails: the key is not the base URL followed by
  \<^verbatim>\<open>?aelia_cache=\<close> and the percent-encoding of the joined string.
\<close>

theorem scenario_A_key_counterexample:
  "generateCacheKey
     \<lparr>protocol = ''https:'', host = ''host'', pathname = ''/product/widget-1'', search = [], hash = []\<rparr> []
   \<noteq> ''https://host/product/widget-1?aelia_cache='' @
       encodeURIComponent ''aelia_cs_selected_currency=default&aelia_customer_country=default''"
  by (simp add: key_eval cookie_or_default_def)

text \<open>
  Claim C3. Two requests for \<^verbatim>\<open>/shop/spare-parts?sort=price\<close> whose jars have the
  currency \<^verbatim>\<open>USD\<close> and \<^verbatim>\<open>EUR\<close> and agree on the country cookie get different keys,
  whatever the scheme and the host.
\<close>

theorem currency_separates_keys:
  assumes "map_of c1 ''aelia_cs_selected_currency'' = Some ''USD''"
    and "map_of c2 ''aelia_cs_selected_currency'' = Some ''EUR''"
    and "map_of c1 ''aelia_customer_country'' = map_of c2 ''aelia_customer_country''"
  shows "generateCacheKey
           \<lparr>protocol = p, host = h, pathname = ''/shop/spare-parts'', search = ''?sort=price'', hash = f\<rparr> c1
         \<noteq> generateCacheKey
           \<lparr>protocol = p, host = h, pathname = ''/shop/spare-parts'', search = ''?sort=price'', hash = f\<rparr> c2"
proof -
  have usd: "cookie_or_default c1 ''aelia_cs_selected_currency'' = ''USD''"
    using assms(1) by (simp add: cookie_or_default_def)
  have eur: "cookie_or_default c2 ''aelia_cs_selected_currency'' = ''EUR''"
    using assms(2) by (simp add: cookie_or_default_def)
  have country: "cookie_or_default c1 ''aelia_customer_country'' = cookie_or_default c2 ''aelia_customer_country''"
    using assms(3) by (simp add: cookie_or_default_def)
  show ?thesis
    by (simp add: key_eval usd eur country)
qed

theorem currency_separates_keys_witness:
  "generateCacheKey
     \<lparr>protocol = ''https:'', host = ''host'', pathname = ''/shop/spare-parts'',
      search = ''?sort=price'', hash = []\<rparr> [(''aelia_cs_selected_currency'', ''USD'')]
   \<noteq> generateCacheKey
     \<lparr>protocol = ''https:'', host = ''host'', pathname = ''/shop/spare-parts'',
      search = ''?sort=price'', hash = []\<rparr> [(''aelia_cs_selected_currency'', ''EUR'')]"
  using currency_separates_keys
    [of "[(''aelia_cs_selected_currency'', ''USD'')]" "[(''aelia_cs_selected_currency'', ''EUR'')]"
      "''https:''" "''host''" "[]"]
  by simp

text \<open>
  Claim C4. For a path that starts neither with \<^verbatim>\<open>/shop\<close> nor with \<^verbatim>\<open>/product/\<close>
  the key is scheme, host, path and query of the URL, and any two jars give the same key.
\<close>

theorem plain_path_key:
  assumes "\<not> startsWith (pathname u) ''/shop''" and "\<not> startsWith (pathname u) ''/product/''"
  shows "generateCacheKey u c1 = protocol u @ ''//'' @ host u @ pathname u @ search u
         \<and> generateCacheKey u c1 = generateCacheKey u c2"
  using assms by (simp add: generateCacheKey_def isShopOrProductPath_def baseKey_def)

theorem plain_path_key_witness:
  "generateCacheKey
     \<lparr>protocol = ''https:'', host = ''host'', pathname = ''/about-us'', search = ''?page=2'', hash = []\<rparr>
     [(''aelia_cs_selected_currency'', ''USD'')]
   = ''https://host/about-us?page=2''
   \<and> generateCacheKey
     \<lparr>protocol = ''https:'', host = ''host'', pathname = ''/about-us'', search = ''?page=2'', hash = []\<rparr>
     [(''aelia_cs_selected_currency'', ''USD'')]
   = generateCacheKey
     \<lparr>protocol = ''https:'', host = ''host'', pathname = ''/about-us'', search = ''?page=2'', hash = []\<rparr>
     [(''aelia_cs_selected_currency'', ''EUR''), (''aelia_customer_country'', ''HU'')]"
  using plain_path_key
    [of "\<lparr>protocol = ''https:'', host = ''host'', pathname = ''/about-us'', search = ''?page=2'', hash = []\<rparr>"
      "[(''aelia_cs_selected_currency'', ''USD'')]"
      "[(''aelia_cs_selected_currency'', ''EUR''), (''aelia_customer_country'', ''HU'')]"]
  by (auto simp add: startsWith_def)


















section \<open>Properties of the dispatcher\<close>

lemma lower_names:
  "map toLowerCase_char ''CF-Cache-Status'' = ''cf-cache-status''"
  "map toLowerCase_char ''X-Cache-Key'' = ''x-cache-key''"
  "map toLowerCase_char ''X-Worker-Cache'' = ''x-worker-cache''"
  "map toLowerCase_char ''cf-cache-status'' = ''cf-cache-status''"
  by (simp_all add: isUpper_def)

lemma Headers_set_names:
  "Headers_set h ''CF-Cache-Status'' v = h(''cf-cache-status'' \<mapsto> v)"
  "Headers_set h ''X-Cache-Key'' v = h(''x-cache-key'' \<mapsto> v)"
  "Headers_set h ''X-Worker-Cache'' v = h(''x-worker-cache'' \<mapsto> v)"
  unfolding Headers_set_def lower_names by (rule refl)+


lemma handleRequest_bypass:
  assumes "parseCookies (Some (case cookie_header r of None \<Rightarrow> [] | Some h \<Rightarrow> h)) = Inr cookies"
    and "bypass r cookies"
  shows "handleRequest origin' cache' r = (origin' r None, [OriginFetch r None])"
  using assms by (auto simp: handleRequest_def bypass_def fetchFromOrigin_def)

lemma handleRequest_hit:
  assumes "parseCookies (Some (case cookie_header r of None \<Rightarrow> [] | Some h \<Rightarrow> h)) = Inr cookies"
    and "\<not> bypass r cookies"
    and "cache' (generateCacheKey (url r) cookies) = Some stored"
  shows "handleRequest origin' cache' r =
    (Inr (hit_response stored (generateCacheKey (url r) cookies)),
     [CacheMatch (generateCacheKey (url r) cookies)])"
  using assms by (auto simp: handleRequest_def bypass_def Let_def)


lemma parse_scenario_A:
  "parseCookies (Some (case cookie_header scenario_A of None \<Rightarrow> [] | Some h \<Rightarrow> h)) = Inr []"
  by (simp add: scenario_A_def parseCookies_def)

lemma parse_scenario_C:
  "parseCookies (Some (case cookie_header scenario_C of None \<Rightarrow> [] | Some h \<Rightarrow> h))
   = Inr [(''woocommerce_cart_hash'', ''abc123'')]"
  by (simp add: scenario_C_def parseCookies_def parseCookie_def trim_def isWhiteSpace_def assign_def)

lemma parse_post_request:
  "parseCookies (Some (case cookie_header post_request of None \<Rightarrow> [] | Some h \<Rightarrow> h)) = Inr []"
  by (simp add: post_request_def scenario_A_def parseCookies_def)

lemma scenario_A_cacheable: "\<not> bypass scenario_A []"
  by (simp add: bypass_def scenario_A_def startsWith_def shouldBypassCache_def
      WOOCOMMERCE_BYPASS_COOKIES_def)

lemma scenario_C_bypass: "bypass scenario_C [(''woocommerce_cart_hash'', ''abc123'')]"
  by (simp add: bypass_def shouldBypassCache_def WOOCOMMERCE_BYPASS_COOKIES_def
      pattern_matches_def endsWith_def suffix_to_prefix)

lemma post_request_bypass: "bypass post_request []"
  by (simp add: bypass_def post_request_def)

lemma key_scenario_A:
  "generateCacheKey (url scenario_A) []
   = ''https://host/product/widget-1?aelia_cache=aelia_cs_selected_currency%253Ddefault%2526aelia_customer_country%253Ddefault''"
  by (simp add: scenario_A_def key_eval cookie_or_default_def)

text \<open>
  A request whose cookies parse and that is bypassed (not a GET, a path under
  \<^verbatim>\<open>/my-account\<close>, or a WooCommerce cookie in the jar) causes one event, the fetch of
  the request itself from the origin without options: no cache lookup, no cache write;
  and the answer of the origin is what the worker returns. A request that is not a GET
  or goes to \<^verbatim>\<open>/my-account\<close> reaches the cache neither for a lookup nor for a write,
  whatever its cookies are.
\<close>

lemma bypass_single_origin_fetch:
  "(parseCookies (Some (case cookie_header r of None \<Rightarrow> [] | Some h \<Rightarrow> h)) = Inr cookies \<longrightarrow>
    bypass r cookies \<longrightarrow>
      handleRequest origin' cache' r = (origin' r None, [OriginFetch r None])
      \<and> snd (worker_fetch origin' cache' r) = [OriginFetch r None]
      \<and> (\<forall>answer. origin' r None = Inr answer \<longrightarrow> fst (worker_fetch origin' cache' r) = answer))
   \<and> (method r \<noteq> ''GET'' \<or> startsWith (pathname (url r)) ''/my-account'' \<longrightarrow>
        (\<forall>cacheKey stored. CacheMatch cacheKey \<notin> set (snd (handleRequest origin' cache' r))
           \<and> CachePut cacheKey stored \<notin> set (snd (handleRequest origin' cache' r))))"
proof (intro conjI impI)
  assume parsed: "parseCookies (Some (case cookie_header r of None \<Rightarrow> [] | Some h \<Rightarrow> h)) = Inr cookies"
    and b: "bypass r cookies"
  have direct: "handleRequest origin' cache' r = (origin' r None, [OriginFetch r None])"
    using parsed b by (rule handleRequest_bypass)
  then show "handleRequest origin' cache' r = (origin' r None, [OriginFetch r None])" .
  from direct show "snd (worker_fetch origin' cache' r) = [OriginFetch r None]"
    by (simp add: worker_fetch_def split: sum.splits)
  from direct show "\<forall>answer. origin' r None = Inr answer \<longrightarrow> fst (worker_fetch origin' cache' r) = answer"
    by (simp add: worker_fetch_def)
next
  assume early: "method r \<noteq> ''GET'' \<or> startsWith (pathname (url r)) ''/my-account''"
  show "\<forall>cacheKey stored. CacheMatch cacheKey \<notin> set (snd (handleRequest origin' cache' r))
           \<and> CachePut cacheKey stored \<notin> set (snd (handleRequest origin' cache' r))"
  proof (cases "parseCookies (Some (case cookie_header r of None \<Rightarrow> [] | Some h \<Rightarrow> h))")
    case (Inl e)
    then show ?thesis by (simp add: handleRequest_def)
  next
    case (Inr cookies')
    moreover from early have "bypass r cookies'" by (auto simp: bypass_def)
    ultimately have "handleRequest origin' cache' r = (origin' r None, [OriginFetch r None])"
      by (rule handleRequest_bypass)
    then show ?thesis by simp
  qed
qed

lemma bypass_single_origin_fetch_example:
  "handleRequest page_origin page_cache scenario_C = (Inr page, [OriginFetch scenario_C None])
   \<and> worker_fetch page_origin page_cache scenario_C = (page, [OriginFetch scenario_C None])
   \<and> worker_fetch page_origin page_cache post_request = (page, [OriginFetch post_request None])"
  using bypass_single_origin_fetch
      [of scenario_C "[(''woocommerce_cart_hash'', ''abc123'')]" page_origin page_cache]
    bypass_single_origin_fetch [of post_request "[]" page_origin page_cache]
    parse_scenario_C scenario_C_bypass parse_post_request post_request_bypass
  by (simp add: page_origin_def prod_eq_iff)

text \<open>
  Claim C8 at a POST to \<^verbatim>\<open>/my-account\<close> with the cookie \<^verbatim>\<open>a=%\<close>. The request is
  bypassed on two counts, its method and its path, whatever its cookies. The worker
  parses the cookies before it looks at either: the parser throws, no event takes place,
  the origin is not asked, and the client gets the response 500 of the top-level handler
  in place of the answer of the origin. The same POST without the cookie is fetched from
  the origin once.
\<close>

theorem bypass_malformed_cookie_no_fetch:
  "method post_malformed_cookie \<noteq> ''GET''
   \<and> startsWith (pathname (url post_malformed_cookie)) ''/my-account''
   \<and> handleRequest page_origin page_cache post_malformed_cookie = (Inl URIError, [])
   \<and> worker_fetch page_origin page_cache post_malformed_cookie = (internal_server_error, [])
   \<and> worker_fetch page_origin page_cache (post_malformed_cookie\<lparr>cookie_header := None\<rparr>)
       = (page, [OriginFetch (post_malformed_cookie\<lparr>cookie_header := None\<rparr>) None])"
  by (simp add: post_malformed_cookie_def startsWith_def worker_fetch_def handleRequest_def
      fetchFromOrigin_def page_origin_def parseCookies_def parseCookie_def trim_def
      isWhiteSpace_def)

text \<open>
  Claim C10. On a cache hit the worker returns the stored response with the headers
  \<^verbatim>\<open>CF-Cache-Status: HIT\<close> and \<^verbatim>\<open>X-Cache-Key\<close> set; body, status and status text
  are those of the stored response, every other header is as stored, and the one
  event is the cache lookup.
\<close>

theorem hit_frame:
  assumes "parseCookies (Some (case cookie_header r of None \<Rightarrow> [] | Some h \<Rightarrow> h)) = Inr cookies"
    and "\<not> bypass r cookies"
    and "cache' (generateCacheKey (url r) cookies) = Some stored"
  shows "worker_fetch origin' cache' r =
      (stored\<lparr>headers := (headers stored)(''cf-cache-status'' \<mapsto> ''HIT'',
                 ''x-cache-key'' \<mapsto> generateCacheKey (url r) cookies)\<rparr>,
       [CacheMatch (generateCacheKey (url r) cookies)])
     \<and> body (fst (worker_fetch origin' cache' r)) = body stored
     \<and> status (fst (worker_fetch origin' cache' r)) = status stored
     \<and> statusText (fst (worker_fetch origin' cache' r)) = statusText stored
     \<and> (\<forall>name. name \<noteq> ''cf-cache-status'' \<longrightarrow> name \<noteq> ''x-cache-key'' \<longrightarrow>
           headers (fst (worker_fetch origin' cache' r)) name = headers stored name)"
  using assms handleRequest_hit [of r cookies cache' stored origin']
  by (simp add: worker_fetch_def hit_response_def Headers_set_names)

theorem hit_frame_witness:
  "worker_fetch page_origin page_cache scenario_A =
     (page\<lparr>headers := [''content-type'' \<mapsto> ''text/html'', ''cf-cache-status'' \<mapsto> ''HIT'',
         ''x-cache-key'' \<mapsto> ''https://host/product/widget-1?aelia_cache=aelia_cs_selected_currency%253Ddefault%2526aelia_customer_country%253Ddefault'']\<rparr>,
      [CacheMatch ''https://host/product/widget-1?aelia_cache=aelia_cs_selected_currency%253Ddefault%2526aelia_customer_country%253Ddefault''])"
proof -
  have hit: "page_cache (generateCacheKey (url scenario_A) []) = Some page"
    by (simp add: page_cache_def)
  show ?thesis
    using hit_frame [OF parse_scenario_A scenario_A_cacheable, of page_cache page page_origin] hit
    by (simp add: key_scenario_A page_def)
qed




end
